theory Spec2Isabelle
  imports Main
begin

section \<open>Data model of the dispute phase calculator (utils/dispute-utils)\<close>

text \<open>
  Modelled from the spec: the module \<^verbatim>\<open>types/types\<close> (imported as \<^verbatim>\<open>DisputesTypes\<close>) is
  not among the sources. Its table \<^verbatim>\<open>DisputesTypes.Phase\<close> is read under the names below; the
  dispute states (Evidence, JuryDrafting, Adjudicating, Ruled) are entries of the same table,
  since the source compares \<^verbatim>\<open>dispute.state\<close> with \<^verbatim>\<open>DisputesTypes.Phase.Ruled\<close> and assigns
  \<^verbatim>\<open>phase = state\<close>. The spec lists Appealing/AppealRuling and ConfirmingAppeal/ConfirmAppeal
  as two names of one phase each, so each pair is one value here.
\<close>

datatype Phase =
    Created | Evidence | JuryDrafting | Adjudicating | Ruled
  | VotingPeriod | RevealVote | Appealing | ConfirmingAppeal
  | ExecuteRuling | ClaimRewards

abbreviation AppealRuling :: Phase where
  "AppealRuling \<equiv> Appealing"

abbreviation ConfirmAppeal :: Phase where
  "ConfirmAppeal \<equiv> ConfirmingAppeal"

text \<open>
  Modelled from the spec: the values of the missing \<^verbatim>\<open>DisputesTypes.Phase\<close> table are
  ``string/symbol constants compared with ==='', that is JavaScript primitives. Reading a
  named property of such a value, as \<^verbatim>\<open>currentPhaseAndTime.phase.ExecuteRuling\<close> does,
  evaluates to \<^verbatim>\<open>undefined\<close>, which is \<open>None\<close> here.
\<close>

definition phaseProperty :: "Phase \<Rightarrow> string \<Rightarrow> Phase option" where
  "phaseProperty p name = None"

text \<open>Of \<^verbatim>\<open>round.appeal\<close> the source reads only whether it is present.\<close>

datatype Appeal = AppealObject

record Round =
  number :: int
  draftTermId :: int
  delayedTerms :: int
  createdAt :: int
  appeal :: "Appeal option"

record Dispute =
  createdAt :: int
  state :: Phase
  rounds :: "Round list"
  lastRoundId :: int

text \<open>
  Every field that the source destructures from \<^verbatim>\<open>courtConfig\<close>. The round timeline reads
  \<^verbatim>\<open>appealConfirmationTerms\<close>, which is the field of the spec's data model; the phase
  resolver reads \<^verbatim>\<open>appealConfirmTerms\<close>, which the data model does not have. A
  configuration of the data model therefore has no such property, and the read gives
  \<^verbatim>\<open>undefined\<close>: the field is optional, \<open>None\<close> where the property is absent.
\<close>

record CourtConfig =
  termDuration :: int
  evidenceTerms :: int
  commitTerms :: int
  revealTerms :: int
  appealTerms :: int
  appealConfirmTerms :: "int option"
  appealConfirmationTerms :: int
  maxRegularAppealRounds :: int

text \<open>The only failure of the source is the TypeError of reading a property of \<^verbatim>\<open>undefined\<close>.\<close>

datatype error = TypeError

text \<open>The value \<^verbatim>\<open>null\<close> of the \<^verbatim>\<open>ruling\<close> placeholder.\<close>

datatype Ruling = Null

text \<open>
  The object returned by \<^verbatim>\<open>getAdjudicationPhase\<close>, and its spread
  \<^verbatim>\<open>{ ...currentAdjudicationPhase, roundId }\<close> returned by \<^verbatim>\<open>getPhaseAndTransition\<close>.
  A property that the returned object does not have is \<open>None\<close>.
\<close>

record AdjudicationPhase =
  phase :: Phase
  nextTransition :: "int option"

record PhaseAndTransition = AdjudicationPhase +
  roundId :: int
  ruling :: "Ruling option"

text \<open>
  An interval descriptor of the timeline. The timeline itself holds descriptors and, pushed as
  one element, the array of the rounds' ladders.
\<close>

record PhaseEntry =
  phase :: Phase
  endTime :: "int option"
  active :: "bool option"
  roundId :: "int option"

datatype TimeLineItem = Entry PhaseEntry | RoundsEntry "PhaseEntry list list"

section \<open>Library operations\<close>

text \<open>\<^verbatim>\<open>dayjs(date).unix()\<close>: the epoch milliseconds of the date, floored to whole seconds.\<close>

definition unix :: "int \<Rightarrow> int" where
  "unix ms = ms div 1000"

text \<open>\<^verbatim>\<open>xs[i]\<close>: \<^verbatim>\<open>undefined\<close> outside the array.\<close>

definition index :: "'a list \<Rightarrow> int \<Rightarrow> 'a option" where
  "index xs i = (if 0 \<le> i \<and> i < int (length xs) then Some (xs ! nat i) else None)"

text \<open>\<^verbatim>\<open>xs.findIndex(p)\<close>: the first position where \<open>p\<close> holds, \<open>-1\<close> when there is none.\<close>

fun findIndex :: "('a \<Rightarrow> bool) \<Rightarrow> 'a list \<Rightarrow> int" where
  "findIndex p [] = - 1"
| "findIndex p (x # xs) =
     (if p x then 0
      else (let i = findIndex p xs in if i < 0 then - 1 else i + 1))"

text \<open>\<^verbatim>\<open>xs.slice(0, e)\<close>: a negative end counts from the end of the array.\<close>

definition slice0 :: "'a list \<Rightarrow> int \<Rightarrow> 'a list" where
  "slice0 xs e =
     (if e < 0 then take (nat (max (int (length xs) + e) 0)) xs else take (nat e) xs)"

text \<open>
  An arithmetic result that may be \<^verbatim>\<open>NaN\<close> is an \<open>int option\<close>, with \<open>None\<close> for
  \<^verbatim>\<open>NaN\<close>. \<^verbatim>\<open>x + y * z\<close> with \<open>y\<close> possibly \<^verbatim>\<open>undefined\<close>: the product of
  \<^verbatim>\<open>undefined\<close> and a number is \<^verbatim>\<open>NaN\<close>, and so is a sum with \<^verbatim>\<open>NaN\<close>.
\<close>

definition plusTimes :: "int \<Rightarrow> int option \<Rightarrow> int \<Rightarrow> int option" where
  "plusTimes x y z = (case y of None \<Rightarrow> None | Some v \<Rightarrow> Some (x + v * z))"

text \<open>\<^verbatim>\<open>n < x\<close> with \<open>x\<close> possibly \<^verbatim>\<open>NaN\<close>: every comparison with \<^verbatim>\<open>NaN\<close> is false.\<close>

definition lessNaN :: "int \<Rightarrow> int option \<Rightarrow> bool" where
  "lessNaN n x = (case x of None \<Rightarrow> False | Some b \<Rightarrow> n < b)"

section \<open>The phase resolver\<close>

definition juryDraftingTerms :: int where
  "juryDraftingTerms = 3"

definition getAdjudicationPhase ::
  "Dispute \<Rightarrow> Round \<Rightarrow> int \<Rightarrow> int \<Rightarrow> CourtConfig \<Rightarrow> AdjudicationPhase" where
  "getAdjudicationPhase dispute round now draftTermEndTime courtConfig =
     (let numberOfRounds = int (length (rounds dispute));
          revealTermStartTime =
            draftTermEndTime + commitTerms courtConfig * termDuration courtConfig
      in
      if now < revealTermStartTime then
        \<lparr>AdjudicationPhase.phase = VotingPeriod, nextTransition = Some revealTermStartTime\<rparr>
      else
      let appealTermStartTime =
            revealTermStartTime + revealTerms courtConfig * termDuration courtConfig
      in
      if now < appealTermStartTime then
        \<lparr>AdjudicationPhase.phase = RevealVote, nextTransition = Some appealTermStartTime\<rparr>
      else
      let maxAppealReached = (numberOfRounds > maxRegularAppealRounds courtConfig)
      in
      if maxAppealReached then
        \<lparr>AdjudicationPhase.phase = ExecuteRuling, nextTransition = None\<rparr>
      else
      let isLastRoundAppealed = (appeal round \<noteq> None);
          appealConfirmationTermStartTime =
            appealTermStartTime + appealTerms courtConfig * termDuration courtConfig
      in
      if \<not> isLastRoundAppealed then
        (if now < appealConfirmationTermStartTime then
           \<lparr>AdjudicationPhase.phase = Appealing,
            nextTransition = Some appealConfirmationTermStartTime\<rparr>
         else \<lparr>AdjudicationPhase.phase = ExecuteRuling, nextTransition = None\<rparr>)
      else
      let appealConfirmationTermEndTime =
            plusTimes appealConfirmationTermStartTime (appealConfirmTerms courtConfig)
              (termDuration courtConfig)
      in
      if lessNaN now appealConfirmationTermEndTime then
        \<lparr>AdjudicationPhase.phase = ConfirmingAppeal,
         nextTransition = appealConfirmationTermEndTime\<rparr>
      else \<lparr>AdjudicationPhase.phase = ExecuteRuling, nextTransition = None\<rparr>)"

text \<open>
  \<^verbatim>\<open>getTermStartTime\<close> is imported from \<^verbatim>\<open>court-utils\<close>, which is not among the sources:
  it is the first parameter of every function that calls it. \<open>nowDate\<close> is the date passed
  by the caller, as epoch milliseconds. The result is \<open>Inl TypeError\<close> where the source
  throws, \<open>Inr None\<close> where it falls off its end and returns \<^verbatim>\<open>undefined\<close>.
\<close>

definition getPhaseAndTransition ::
  "(int \<Rightarrow> CourtConfig \<Rightarrow> int) \<Rightarrow> Dispute \<Rightarrow> CourtConfig \<Rightarrow> int
     \<Rightarrow> error + PhaseAndTransition option" where
  "getPhaseAndTransition getTermStartTime dispute courtConfig nowDate =
     (let now = unix nowDate * 1000 in
      case index (rounds dispute) (lastRoundId dispute) of
        None \<Rightarrow> Inl TypeError
      | Some lastRound \<Rightarrow>
          if state dispute = Ruled then
            Inr (Some \<lparr>AdjudicationPhase.phase = ClaimRewards, nextTransition = None,
                       PhaseAndTransition.roundId = number lastRound, ruling = Some Null\<rparr>)
          else if state dispute = Evidence then
            (let evidenceSubmissionEndTime =
                   Dispute.createdAt dispute
                     + termDuration courtConfig * evidenceTerms courtConfig
             in
             if now > evidenceSubmissionEndTime then
               Inr (Some \<lparr>AdjudicationPhase.phase = JuryDrafting,
                          nextTransition =
                            Some (evidenceSubmissionEndTime
                                    + termDuration courtConfig * juryDraftingTerms),
                          PhaseAndTransition.roundId = number lastRound, ruling = None\<rparr>)
             else
               Inr (Some \<lparr>AdjudicationPhase.phase = state dispute,
                          nextTransition = Some evidenceSubmissionEndTime,
                          PhaseAndTransition.roundId = number lastRound, ruling = None\<rparr>))
          else if state dispute = JuryDrafting then
            Inr (Some \<lparr>AdjudicationPhase.phase = JuryDrafting,
                       nextTransition =
                         Some (Round.createdAt lastRound
                                 + termDuration courtConfig * juryDraftingTerms),
                       PhaseAndTransition.roundId = number lastRound, ruling = None\<rparr>)
          else if state dispute = Adjudicating then
            (let draftTermEndTime =
                   getTermStartTime (draftTermId lastRound + delayedTerms lastRound) courtConfig;
                 currentAdjudicationPhase =
                   getAdjudicationPhase dispute lastRound now draftTermEndTime courtConfig
             in
             Inr (Some (AdjudicationPhase.extend currentAdjudicationPhase
                          \<lparr>PhaseAndTransition.roundId = number lastRound, ruling = None\<rparr>)))
          else Inr None)"

section \<open>The timeline builder\<close>

text \<open>The local array \<^verbatim>\<open>roundPhasesAndTime\<close> of \<^verbatim>\<open>getRoundPhasesAndTime\<close>.\<close>

definition roundPhasesAndTime ::
  "(int \<Rightarrow> CourtConfig \<Rightarrow> int) \<Rightarrow> CourtConfig \<Rightarrow> Round \<Rightarrow> PhaseAndTransition
     \<Rightarrow> PhaseEntry list" where
  "roundPhasesAndTime getTermStartTime courtConfig round currentPhase =
     (let disputeDraftTermTime =
            getTermStartTime (draftTermId round + delayedTerms round) courtConfig
      in
      [\<lparr>PhaseEntry.phase = JuryDrafting,
        endTime = Some (Round.createdAt round + termDuration courtConfig * juryDraftingTerms),
        active = Some (JuryDrafting = AdjudicationPhase.phase currentPhase),
        PhaseEntry.roundId = Some (number round)\<rparr>,
       \<lparr>PhaseEntry.phase = VotingPeriod,
        endTime =
          Some (disputeDraftTermTime + termDuration courtConfig * commitTerms courtConfig),
        active = Some (VotingPeriod = AdjudicationPhase.phase currentPhase),
        PhaseEntry.roundId = Some (number round)\<rparr>,
       \<lparr>PhaseEntry.phase = RevealVote,
        endTime =
          Some (disputeDraftTermTime
                  + termDuration courtConfig
                      * (commitTerms courtConfig + revealTerms courtConfig)),
        active = Some (RevealVote = AdjudicationPhase.phase currentPhase),
        PhaseEntry.roundId = Some (number round)\<rparr>,
       \<lparr>PhaseEntry.phase = AppealRuling,
        endTime =
          Some (disputeDraftTermTime
                  + termDuration courtConfig
                      * (commitTerms courtConfig + revealTerms courtConfig
                           + appealTerms courtConfig)),
        active = Some (AppealRuling = AdjudicationPhase.phase currentPhase),
        PhaseEntry.roundId = Some (number round)\<rparr>,
       \<lparr>PhaseEntry.phase = ConfirmAppeal,
        endTime =
          Some (disputeDraftTermTime
                  + termDuration courtConfig
                      * (commitTerms courtConfig + revealTerms courtConfig
                           + appealTerms courtConfig + appealConfirmationTerms courtConfig)),
        active = Some (ConfirmAppeal = AdjudicationPhase.phase currentPhase),
        PhaseEntry.roundId = Some (number round)\<rparr>])"

definition getRoundPhasesAndTime ::
  "(int \<Rightarrow> CourtConfig \<Rightarrow> int) \<Rightarrow> CourtConfig \<Rightarrow> Round \<Rightarrow> PhaseAndTransition
     \<Rightarrow> PhaseEntry list" where
  "getRoundPhasesAndTime getTermStartTime courtConfig round currentPhase =
     (if number round < PhaseAndTransition.roundId currentPhase then
        roundPhasesAndTime getTermStartTime courtConfig round currentPhase
      else
        (let currentPhaseIndex =
               findIndex (\<lambda>phase. PhaseEntry.phase phase = AdjudicationPhase.phase currentPhase)
                 (roundPhasesAndTime getTermStartTime courtConfig round currentPhase)
         in slice0 (roundPhasesAndTime getTermStartTime courtConfig round currentPhase)
              (currentPhaseIndex + 1)))"

text \<open>
  The source reads the wall clock itself (\<^verbatim>\<open>new Date()\<close>) and hands the reading to
  \<^verbatim>\<open>getPhaseAndTransition\<close>; that reading is the last parameter here, as epoch
  milliseconds. Where \<^verbatim>\<open>getPhaseAndTransition\<close> returns \<^verbatim>\<open>undefined\<close>, the read of
  \<^verbatim>\<open>currentPhaseAndTime.phase\<close> throws.
\<close>

definition getDisputeTimeLine ::
  "(int \<Rightarrow> CourtConfig \<Rightarrow> int) \<Rightarrow> Dispute \<Rightarrow> CourtConfig \<Rightarrow> int
     \<Rightarrow> error + TimeLineItem list" where
  "getDisputeTimeLine getTermStartTime dispute courtConfig clock =
     (case getPhaseAndTransition getTermStartTime dispute courtConfig clock of
        Inl e \<Rightarrow> Inl e
      | Inr None \<Rightarrow> Inl TypeError
      | Inr (Some currentPhaseAndTime) \<Rightarrow>
          (let timeLine =
                 [Entry \<lparr>PhaseEntry.phase = Created,
                         endTime = Some (Dispute.createdAt dispute),
                         active = None, PhaseEntry.roundId = None\<rparr>,
                  Entry \<lparr>PhaseEntry.phase = Evidence,
                         endTime =
                           Some (Dispute.createdAt dispute
                                   + termDuration courtConfig * evidenceTerms courtConfig),
                         active =
                           Some (AdjudicationPhase.phase currentPhaseAndTime = Evidence),
                         PhaseEntry.roundId = None\<rparr>];
               roundLadders =
                 map (\<lambda>round. getRoundPhasesAndTime getTermStartTime courtConfig round
                                 currentPhaseAndTime)
                   (rounds dispute)
           in
           if length roundLadders = 0 then Inr timeLine
           else
           if Some ExecuteRuling
                = phaseProperty (AdjudicationPhase.phase currentPhaseAndTime) ''ExecuteRuling''
           then
             Inr (timeLine @ [RoundsEntry roundLadders] @
                  [Entry \<lparr>PhaseEntry.phase = ExecuteRuling, endTime = None,
                          active =
                            Some (Some ExecuteRuling
                                    = phaseProperty
                                        (AdjudicationPhase.phase currentPhaseAndTime)
                                        ''ExecuteRuling''),
                          PhaseEntry.roundId = None\<rparr>])
           else
           if Some ClaimRewards
                = phaseProperty (AdjudicationPhase.phase currentPhaseAndTime) ''ClaimRewards''
           then
             Inr (timeLine @ [RoundsEntry roundLadders] @
                  [Entry \<lparr>PhaseEntry.phase = ClaimRewards, endTime = None,
                          active =
                            Some (AdjudicationPhase.phase currentPhaseAndTime = ClaimRewards),
                          PhaseEntry.roundId = None\<rparr>])
           else Inr (timeLine @ [RoundsEntry roundLadders])))"

section \<open>Stage boundaries\<close>

text \<open>
  The boundaries of the deadline ladder as the spec tabulates them: each adds the terms of its
  stage, times \<^verbatim>\<open>termDuration\<close>, to the boundary before, starting at
  \<^verbatim>\<open>draftTermEndTime\<close>. The appeal-confirm boundary is a number only where the
  configuration has the property \<^verbatim>\<open>appealConfirmTerms\<close>. \<open>evidenceEnd\<close> is the end of
  evidence submission.
\<close>

definition commitBoundary :: "int \<Rightarrow> CourtConfig \<Rightarrow> int" where
  "commitBoundary draftTermEndTime c = draftTermEndTime + commitTerms c * termDuration c"

definition revealBoundary :: "int \<Rightarrow> CourtConfig \<Rightarrow> int" where
  "revealBoundary draftTermEndTime c =
     commitBoundary draftTermEndTime c + revealTerms c * termDuration c"

definition appealBoundary :: "int \<Rightarrow> CourtConfig \<Rightarrow> int" where
  "appealBoundary draftTermEndTime c =
     revealBoundary draftTermEndTime c + appealTerms c * termDuration c"

definition appealConfirmBoundary :: "int \<Rightarrow> CourtConfig \<Rightarrow> int option" where
  "appealConfirmBoundary draftTermEndTime c =
     (case appealConfirmTerms c of
        None \<Rightarrow> None
      | Some a \<Rightarrow> Some (appealBoundary draftTermEndTime c + a * termDuration c))"

definition evidenceEnd :: "Dispute \<Rightarrow> CourtConfig \<Rightarrow> int" where
  "evidenceEnd d c = Dispute.createdAt d + termDuration c * evidenceTerms c"

section \<open>Phase order and resolved phase\<close>

text \<open>
  The ordered phase sequence of the spec: Evidence, JuryDrafting, VotingPeriod, RevealVote,
  Appealing, ConfirmingAppeal, ExecuteRuling, ClaimRewards. The other entries of the phase
  table are no phases of that sequence and have no rank.
\<close>

fun phaseRank :: "Phase \<Rightarrow> nat option" where
  "phaseRank Evidence = Some 0"
| "phaseRank JuryDrafting = Some 1"
| "phaseRank VotingPeriod = Some 2"
| "phaseRank RevealVote = Some 3"
| "phaseRank Appealing = Some 4"
| "phaseRank ConfirmingAppeal = Some 5"
| "phaseRank ExecuteRuling = Some 6"
| "phaseRank ClaimRewards = Some 7"
| "phaseRank _ = None"

definition phaseLeq :: "Phase \<Rightarrow> Phase \<Rightarrow> bool" where
  "phaseLeq p q =
     (case (phaseRank p, phaseRank q) of (Some i, Some j) \<Rightarrow> i \<le> j | _ \<Rightarrow> False)"

text \<open>
  What the timeline builder reads of the result of \<^verbatim>\<open>getPhaseAndTransition\<close>: the phase
  and the round id, or that there is none.
\<close>

definition resolved ::
  "error + PhaseAndTransition option \<Rightarrow> error + (Phase \<times> int) option" where
  "resolved res =
     (case res of
        Inl e \<Rightarrow> Inl e
      | Inr None \<Rightarrow> Inr None
      | Inr (Some p) \<Rightarrow>
          Inr (Some (AdjudicationPhase.phase p, PhaseAndTransition.roundId p)))"

section \<open>Sample inputs\<close>

text \<open>
  A term clock for evaluating the functions at concrete inputs: term \<open>t\<close> starts at
  \<open>t * termDuration\<close>. The sample configuration has the fields of the spec's data model,
  so it has no \<^verbatim>\<open>appealConfirmTerms\<close>; \<open>sampleConfigConfirm\<close> is the same configuration
  with that property added.
\<close>

definition linearTermStartTime :: "int \<Rightarrow> CourtConfig \<Rightarrow> int" where
  "linearTermStartTime termId courtConfig = termId * termDuration courtConfig"

definition sampleConfig :: CourtConfig where
  "sampleConfig =
     \<lparr>termDuration = 1000, evidenceTerms = 2, commitTerms = 2, revealTerms = 2,
      appealTerms = 2, appealConfirmTerms = None, appealConfirmationTerms = 2,
      maxRegularAppealRounds = 1\<rparr>"

definition sampleConfigConfirm :: CourtConfig where
  "sampleConfigConfirm = sampleConfig\<lparr>appealConfirmTerms := Some 2\<rparr>"

definition sampleRound :: Round where
  "sampleRound =
     \<lparr>number = 0, draftTermId = 8, delayedTerms = 2, Round.createdAt = 3000, appeal = None\<rparr>"

definition sampleDispute :: Dispute where
  "sampleDispute =
     \<lparr>Dispute.createdAt = 0, state = Evidence, rounds = [sampleRound], lastRoundId = 0\<rparr>"

text \<open>The sample dispute appealed once: two rounds, the second being adjudicated.\<close>

definition twoRoundDispute :: Dispute where
  "twoRoundDispute =
     \<lparr>Dispute.createdAt = 0, state = Adjudicating,
      rounds = [sampleRound, sampleRound\<lparr>number := 1\<rparr>], lastRoundId = 1\<rparr>"

section \<open>Properties\<close>

subsection \<open>Auxiliary facts\<close>

lemmas boundary_defs =
  commitBoundary_def revealBoundary_def appealBoundary_def appealConfirmBoundary_def

lemmas sample_defs = sampleConfig_def sampleRound_def sampleDispute_def

lemma index_last: "xs \<noteq> [] \<Longrightarrow> index xs (int (length xs) - 1) = Some (last xs)"
  by (cases xs rule: rev_cases) (simp_all add: index_def nth_append)

lemma index_Nil: "index [] i = None"
  by (simp add: index_def)

lemma unix_le: "unix nowDate * 1000 \<le> nowDate"
  by (simp add: unix_def)

lemma unix_gt: "nowDate - 1000 < unix nowDate * 1000"
proof -
  have "nowDate = nowDate div 1000 * 1000 + nowDate mod 1000"
    by simp
  moreover have "nowDate mod 1000 < 1000"
    by simp
  ultimately show ?thesis
    unfolding unix_def by linarith
qed

lemma unix_mono: "now1 \<le> now2 \<Longrightarrow> unix now1 * 1000 \<le> unix now2 * 1000"
  by (simp add: unix_def zdiv_mono1)

text \<open>In state Adjudicating the resolver returns what the ladder gives for the last round.\<close>

lemma getPhaseAndTransition_Adjudicating:
  assumes "state d = Adjudicating" and "rounds d \<noteq> []"
    and "lastRoundId d = int (length (rounds d)) - 1"
  shows "getPhaseAndTransition g d c nowDate =
           Inr (Some (AdjudicationPhase.extend
                        (getAdjudicationPhase d (last (rounds d)) (unix nowDate * 1000)
                           (g (draftTermId (last (rounds d)) + delayedTerms (last (rounds d))) c)
                           c)
                        \<lparr>PhaseAndTransition.roundId = number (last (rounds d)),
                         ruling = None\<rparr>))"
  using assms by (simp add: getPhaseAndTransition_def index_last Let_def)

lemma getAdjudicationPhase_mono:
  "now1 \<le> now2 \<Longrightarrow>
     phaseLeq (AdjudicationPhase.phase (getAdjudicationPhase d r now1 t c))
       (AdjudicationPhase.phase (getAdjudicationPhase d r now2 t c))"
  by (auto simp add: getAdjudicationPhase_def plusTimes_def lessNaN_def Let_def phaseLeq_def
      split: option.splits)

lemma roundPhasesAndTime_phases:
  "map PhaseEntry.phase (roundPhasesAndTime g c r cur) =
     [JuryDrafting, VotingPeriod, RevealVote, AppealRuling, ConfirmAppeal]"
  by (simp add: roundPhasesAndTime_def Let_def)

text \<open>
  A current round whose resolved phase is none of the five ladder phases (Evidence,
  ExecuteRuling, ClaimRewards) contributes no entry at all: \<^verbatim>\<open>findIndex\<close> gives \<open>-1\<close>.
\<close>

lemma getRoundPhasesAndTime_no_entry:
  assumes "\<not> number r < PhaseAndTransition.roundId cur"
    and "AdjudicationPhase.phase cur
           \<notin> {JuryDrafting, VotingPeriod, RevealVote, AppealRuling, ConfirmAppeal}"
  shows "getRoundPhasesAndTime g c r cur = []"
  using assms
  by (auto simp add: getRoundPhasesAndTime_def roundPhasesAndTime_def slice0_def Let_def)

lemma getRoundPhasesAndTime_cong:
  "AdjudicationPhase.phase p = AdjudicationPhase.phase q \<Longrightarrow>
   PhaseAndTransition.roundId p = PhaseAndTransition.roundId q \<Longrightarrow>
   getRoundPhasesAndTime g c r p = getRoundPhasesAndTime g c r q"
  by (simp add: getRoundPhasesAndTime_def roundPhasesAndTime_def)

lemma getDisputeTimeLine_resolved:
  assumes "resolved (getPhaseAndTransition g d c clock1)
             = resolved (getPhaseAndTransition g d c clock2)"
  shows "getDisputeTimeLine g d c clock1 = getDisputeTimeLine g d c clock2"
proof (cases "getPhaseAndTransition g d c clock1")
  case (Inl e)
  with assms show ?thesis
    by (auto simp add: getDisputeTimeLine_def resolved_def split: sum.splits option.splits)
next
  case (Inr res1)
  show ?thesis
  proof (cases res1)
    case None
    with Inr assms show ?thesis
      by (auto simp add: getDisputeTimeLine_def resolved_def split: sum.splits option.splits)
  next
    case (Some p)
    with Inr assms obtain q where q: "getPhaseAndTransition g d c clock2 = Inr (Some q)"
      and "AdjudicationPhase.phase p = AdjudicationPhase.phase q"
      and "PhaseAndTransition.roundId p = PhaseAndTransition.roundId q"
      by (auto simp add: resolved_def split: sum.splits option.splits)
    then show ?thesis
      using Inr Some getRoundPhasesAndTime_cong [of p q g c]
      by (simp add: getDisputeTimeLine_def Let_def)
  qed
qed

text \<open>
  Where the resolver returns a phase, the timeline has the rounds' ladders as its third
  element.
\<close>

lemma getDisputeTimeLine_rounds:
  assumes "getPhaseAndTransition g d c clock = Inr (Some cur)"
  shows "\<exists>tl. getDisputeTimeLine g d c clock = Inr tl
           \<and> tl ! 2 = RoundsEntry (map (\<lambda>round. getRoundPhasesAndTime g c round cur) (rounds d))"
proof -
  have "rounds d \<noteq> []"
    using assms by (auto simp add: getPhaseAndTransition_def index_Nil)
  then show ?thesis
    using assms by (simp add: getDisputeTimeLine_def Let_def)
qed

subsection \<open>The adjudication ladder\<close>

text \<open>
  The cases of the ladder. Its last stage exists only where the configuration has the
  property \<^verbatim>\<open>appealConfirmTerms\<close>; where it has not, the end of the confirmation stage is
  \<^verbatim>\<open>NaN\<close> and a round with an appeal is ExecuteRuling as soon as the reveal boundary is
  past.
\<close>

lemma getAdjudicationPhase_cases:
  "(now < commitBoundary t c \<longrightarrow>
      getAdjudicationPhase d r now t c =
        \<lparr>AdjudicationPhase.phase = VotingPeriod, nextTransition = Some (commitBoundary t c)\<rparr>)
   \<and> (commitBoundary t c \<le> now \<and> now < revealBoundary t c \<longrightarrow>
      getAdjudicationPhase d r now t c =
        \<lparr>AdjudicationPhase.phase = RevealVote, nextTransition = Some (revealBoundary t c)\<rparr>)
   \<and> (commitBoundary t c \<le> now \<and> revealBoundary t c \<le> now
        \<and> int (length (rounds d)) \<le> maxRegularAppealRounds c
        \<and> appeal r = None \<and> now < appealBoundary t c \<longrightarrow>
      getAdjudicationPhase d r now t c =
        \<lparr>AdjudicationPhase.phase = Appealing, nextTransition = Some (appealBoundary t c)\<rparr>)
   \<and> (commitBoundary t c \<le> now \<and> revealBoundary t c \<le> now
        \<and> int (length (rounds d)) \<le> maxRegularAppealRounds c
        \<and> appeal r = None \<and> appealBoundary t c \<le> now \<longrightarrow>
      getAdjudicationPhase d r now t c =
        \<lparr>AdjudicationPhase.phase = ExecuteRuling, nextTransition = None\<rparr>)
   \<and> (commitBoundary t c \<le> now \<and> revealBoundary t c \<le> now
        \<and> int (length (rounds d)) \<le> maxRegularAppealRounds c
        \<and> appeal r \<noteq> None \<and> appealConfirmBoundary t c = Some b \<and> now < b \<longrightarrow>
      getAdjudicationPhase d r now t c =
        \<lparr>AdjudicationPhase.phase = ConfirmingAppeal, nextTransition = Some b\<rparr>)
   \<and> (commitBoundary t c \<le> now \<and> revealBoundary t c \<le> now
        \<and> int (length (rounds d)) \<le> maxRegularAppealRounds c
        \<and> appeal r \<noteq> None \<and> appealConfirmBoundary t c = Some b \<and> b \<le> now \<longrightarrow>
      getAdjudicationPhase d r now t c =
        \<lparr>AdjudicationPhase.phase = ExecuteRuling, nextTransition = None\<rparr>)
   \<and> (commitBoundary t c \<le> now \<and> revealBoundary t c \<le> now
        \<and> appeal r \<noteq> None \<and> appealConfirmTerms c = None \<longrightarrow>
      getAdjudicationPhase d r now t c =
        \<lparr>AdjudicationPhase.phase = ExecuteRuling, nextTransition = None\<rparr>)"
  by (auto simp add: getAdjudicationPhase_def boundary_defs plusTimes_def lessNaN_def Let_def
      split: option.splits)

text \<open>
  Claim C1 does not hold of the source. The ladder reads the length of the confirmation
  stage from \<^verbatim>\<open>courtConfig.appealConfirmTerms\<close>, where the configuration of the data model,
  and the round timeline that reads the same configuration, have
  \<^verbatim>\<open>appealConfirmationTerms\<close>. At the sample configuration the round with an appeal, half a
  term past the appeal boundary 16000 and before the end 18000 of the confirmation stage
  that the timeline shows for it, is ExecuteRuling and not ConfirmingAppeal; with the
  property added under the name the ladder reads, it is ConfirmingAppeal until 18000.
\<close>

theorem getAdjudicationPhase_confirm_terms_undefined:
  "appealConfirmTerms sampleConfig = None
   \<and> appealConfirmationTerms sampleConfig = 2
   \<and> getAdjudicationPhase sampleDispute (sampleRound\<lparr>appeal := Some AppealObject\<rparr>)
        16500 10000 sampleConfig =
     \<lparr>AdjudicationPhase.phase = ExecuteRuling, nextTransition = None\<rparr>
   \<and> PhaseEntry.endTime
       (roundPhasesAndTime linearTermStartTime sampleConfig
          (sampleRound\<lparr>appeal := Some AppealObject\<rparr>)
          \<lparr>AdjudicationPhase.phase = ExecuteRuling, nextTransition = None,
           PhaseAndTransition.roundId = 0, ruling = None\<rparr> ! 4) = Some 18000
   \<and> getAdjudicationPhase sampleDispute (sampleRound\<lparr>appeal := Some AppealObject\<rparr>)
        16500 10000 sampleConfigConfirm =
     \<lparr>AdjudicationPhase.phase = ConfirmingAppeal, nextTransition = Some 18000\<rparr>"
  by (simp add: getAdjudicationPhase_def roundPhasesAndTime_def plusTimes_def lessNaN_def
      linearTermStartTime_def juryDraftingTerms_def sample_defs sampleConfigConfirm_def Let_def)

text \<open>
  Claim C5. With more rounds than \<^verbatim>\<open>maxRegularAppealRounds\<close>, every \<open>now\<close> at or past the
  reveal boundary resolves to ExecuteRuling, whether or not the round has an appeal. The term
  counts are those of the data model: \<^verbatim>\<open>termDuration\<close> and \<^verbatim>\<open>revealTerms\<close> are not negative.
\<close>

theorem getAdjudicationPhase_max_appeals:
  assumes "int (length (rounds d)) > maxRegularAppealRounds c"
    and "0 \<le> termDuration c" and "0 \<le> revealTerms c"
    and "t + (commitTerms c + revealTerms c) * termDuration c \<le> now"
  shows "getAdjudicationPhase d r now t c =
           \<lparr>AdjudicationPhase.phase = ExecuteRuling, nextTransition = None\<rparr>"
proof -
  have "0 \<le> revealTerms c * termDuration c"
    using assms(2,3) by simp
  then have "\<not> now < t + commitTerms c * termDuration c"
    and "\<not> now < t + commitTerms c * termDuration c + revealTerms c * termDuration c"
    using assms(4) by (simp_all add: algebra_simps)
  then show ?thesis
    using assms(1) by (simp add: getAdjudicationPhase_def Let_def)
qed

text \<open>
  C5 at the dispute of two rounds under a cap of one, exactly at the reveal boundary 14000
  and a day later, for a round with an appeal.
\<close>

theorem getAdjudicationPhase_max_appeals_witness:
  "getAdjudicationPhase twoRoundDispute (sampleRound\<lparr>appeal := Some AppealObject\<rparr>)
     14000 10000 sampleConfig =
     \<lparr>AdjudicationPhase.phase = ExecuteRuling, nextTransition = None\<rparr>
   \<and> getAdjudicationPhase twoRoundDispute (sampleRound\<lparr>appeal := Some AppealObject\<rparr>)
     86400000 10000 sampleConfig =
     \<lparr>AdjudicationPhase.phase = ExecuteRuling, nextTransition = None\<rparr>"
  using getAdjudicationPhase_max_appeals
      [where c = sampleConfig and d = twoRoundDispute and t = 10000 and now = 14000
         and r = "sampleRound\<lparr>appeal := Some AppealObject\<rparr>"]
    getAdjudicationPhase_max_appeals
      [where c = sampleConfig and d = twoRoundDispute and t = 10000 and now = 86400000
         and r = "sampleRound\<lparr>appeal := Some AppealObject\<rparr>"]
  by (simp add: sample_defs twoRoundDispute_def)

subsection \<open>Boundaries\<close>

text \<open>
  Claim C2, as stated, fails at the end of evidence submission, which the source compares
  with \<^verbatim>\<open>now > evidenceSubmissionEndTime\<close>: the sample dispute's evidence submission ends
  at 2000, and exactly then the phase is still Evidence.
\<close>

theorem evidence_end_still_Evidence:
  "unix 2000 * 1000 = evidenceEnd sampleDispute sampleConfig
   \<and> getPhaseAndTransition linearTermStartTime sampleDispute sampleConfig 2000 =
     Inr (Some \<lparr>AdjudicationPhase.phase = Evidence, nextTransition = Some 2000,
                PhaseAndTransition.roundId = 0, ruling = None\<rparr>)"
  by (simp add: getPhaseAndTransition_def evidenceEnd_def index_def unix_def sample_defs Let_def)

text \<open>
  Claim C2, amended. At \<open>now\<close> equal to the commit, reveal, appeal or appeal-confirm
  boundary the ladder takes the boundary as past. The phase is never the stage that just
  ended. With the boundaries in the order of the ladder and the following stage not empty,
  it is the next stage, with that stage's end as next transition: RevealVote at the commit
  boundary; at the reveal boundary ExecuteRuling when the cap on rounds is exceeded, else
  Appealing for a round without appeal and ConfirmingAppeal for a round with one; at the
  appeal boundary ExecuteRuling for a round without appeal and ConfirmingAppeal for a round
  with one; ExecuteRuling at the appeal-confirm boundary. The appeal-confirm boundary is
  that of a configuration with \<^verbatim>\<open>appealConfirmTerms\<close>. The end of evidence submission is
  the exception: at a date equal to it the phase is still Evidence.
\<close>

theorem boundary_is_past:
  "AdjudicationPhase.phase (getAdjudicationPhase d r (commitBoundary t c) t c) \<noteq> VotingPeriod
   \<and> AdjudicationPhase.phase (getAdjudicationPhase d r (revealBoundary t c) t c) \<noteq> RevealVote
   \<and> AdjudicationPhase.phase (getAdjudicationPhase d r (appealBoundary t c) t c) \<noteq> Appealing
   \<and> (appealConfirmBoundary t c = Some b \<longrightarrow>
        AdjudicationPhase.phase (getAdjudicationPhase d r b t c) \<noteq> ConfirmingAppeal)
   \<and> (commitBoundary t c < revealBoundary t c \<longrightarrow>
        getAdjudicationPhase d r (commitBoundary t c) t c =
          \<lparr>AdjudicationPhase.phase = RevealVote, nextTransition = Some (revealBoundary t c)\<rparr>)
   \<and> (commitBoundary t c \<le> revealBoundary t c
        \<and> maxRegularAppealRounds c < int (length (rounds d)) \<longrightarrow>
        getAdjudicationPhase d r (revealBoundary t c) t c =
          \<lparr>AdjudicationPhase.phase = ExecuteRuling, nextTransition = None\<rparr>)
   \<and> (commitBoundary t c \<le> revealBoundary t c
        \<and> int (length (rounds d)) \<le> maxRegularAppealRounds c \<and> appeal r = None
        \<and> revealBoundary t c < appealBoundary t c \<longrightarrow>
        getAdjudicationPhase d r (revealBoundary t c) t c =
          \<lparr>AdjudicationPhase.phase = Appealing, nextTransition = Some (appealBoundary t c)\<rparr>)
   \<and> (commitBoundary t c \<le> revealBoundary t c
        \<and> int (length (rounds d)) \<le> maxRegularAppealRounds c \<and> appeal r \<noteq> None
        \<and> appealConfirmBoundary t c = Some b \<and> revealBoundary t c < b \<longrightarrow>
        getAdjudicationPhase d r (revealBoundary t c) t c =
          \<lparr>AdjudicationPhase.phase = ConfirmingAppeal, nextTransition = Some b\<rparr>)
   \<and> (commitBoundary t c \<le> revealBoundary t c \<and> revealBoundary t c \<le> appealBoundary t c
        \<and> int (length (rounds d)) \<le> maxRegularAppealRounds c \<and> appeal r = None \<longrightarrow>
        getAdjudicationPhase d r (appealBoundary t c) t c =
          \<lparr>AdjudicationPhase.phase = ExecuteRuling, nextTransition = None\<rparr>)
   \<and> (commitBoundary t c \<le> revealBoundary t c \<and> revealBoundary t c \<le> appealBoundary t c
        \<and> int (length (rounds d)) \<le> maxRegularAppealRounds c \<and> appeal r \<noteq> None
        \<and> appealConfirmBoundary t c = Some b \<and> appealBoundary t c < b \<longrightarrow>
        getAdjudicationPhase d r (appealBoundary t c) t c =
          \<lparr>AdjudicationPhase.phase = ConfirmingAppeal, nextTransition = Some b\<rparr>)
   \<and> (commitBoundary t c \<le> revealBoundary t c \<and> revealBoundary t c \<le> appealBoundary t c
        \<and> appealConfirmBoundary t c = Some b \<and> appealBoundary t c \<le> b \<longrightarrow>
        getAdjudicationPhase d r b t c =
          \<lparr>AdjudicationPhase.phase = ExecuteRuling, nextTransition = None\<rparr>)
   \<and> (state d = Evidence \<and> rounds d \<noteq> [] \<and> lastRoundId d = int (length (rounds d)) - 1
        \<and> nowDate = evidenceEnd d c \<longrightarrow>
      getPhaseAndTransition g d c nowDate =
        Inr (Some \<lparr>AdjudicationPhase.phase = Evidence,
                   nextTransition = Some (evidenceEnd d c),
                   PhaseAndTransition.roundId = number (last (rounds d)), ruling = None\<rparr>))"
proof -
  have neq:
    "AdjudicationPhase.phase (getAdjudicationPhase d r (commitBoundary t c) t c) \<noteq> VotingPeriod
     \<and> AdjudicationPhase.phase (getAdjudicationPhase d r (revealBoundary t c) t c) \<noteq> RevealVote
     \<and> AdjudicationPhase.phase (getAdjudicationPhase d r (appealBoundary t c) t c) \<noteq> Appealing"
    by (simp add: getAdjudicationPhase_def boundary_defs Let_def)
  have neq4: "AdjudicationPhase.phase (getAdjudicationPhase d r b t c) \<noteq> ConfirmingAppeal"
    if "appealConfirmBoundary t c = Some b"
    using that
    by (auto simp add: getAdjudicationPhase_def boundary_defs plusTimes_def lessNaN_def Let_def
        split: option.splits)
  have at_commit: "getAdjudicationPhase d r (commitBoundary t c) t c =
      \<lparr>AdjudicationPhase.phase = RevealVote, nextTransition = Some (revealBoundary t c)\<rparr>"
    if "commitBoundary t c < revealBoundary t c"
    using getAdjudicationPhase_cases [of "commitBoundary t c" t c d r] that by simp
  have at_reveal_cap: "getAdjudicationPhase d r (revealBoundary t c) t c =
      \<lparr>AdjudicationPhase.phase = ExecuteRuling, nextTransition = None\<rparr>"
    if "commitBoundary t c \<le> revealBoundary t c"
      and "maxRegularAppealRounds c < int (length (rounds d))"
    using that by (simp add: getAdjudicationPhase_def boundary_defs Let_def)
  have at_reveal_open: "getAdjudicationPhase d r (revealBoundary t c) t c =
      \<lparr>AdjudicationPhase.phase = Appealing, nextTransition = Some (appealBoundary t c)\<rparr>"
    if "commitBoundary t c \<le> revealBoundary t c"
      and "int (length (rounds d)) \<le> maxRegularAppealRounds c" and "appeal r = None"
      and "revealBoundary t c < appealBoundary t c"
    using getAdjudicationPhase_cases [of "revealBoundary t c" t c d r] that by simp
  have at_reveal_appealed: "getAdjudicationPhase d r (revealBoundary t c) t c =
      \<lparr>AdjudicationPhase.phase = ConfirmingAppeal, nextTransition = Some b\<rparr>"
    if "commitBoundary t c \<le> revealBoundary t c"
      and "int (length (rounds d)) \<le> maxRegularAppealRounds c" and "appeal r \<noteq> None"
      and "appealConfirmBoundary t c = Some b" and "revealBoundary t c < b"
    using getAdjudicationPhase_cases [of "revealBoundary t c" t c d r b] that by simp
  have at_appeal_open: "getAdjudicationPhase d r (appealBoundary t c) t c =
      \<lparr>AdjudicationPhase.phase = ExecuteRuling, nextTransition = None\<rparr>"
    if "commitBoundary t c \<le> revealBoundary t c" and "revealBoundary t c \<le> appealBoundary t c"
      and "int (length (rounds d)) \<le> maxRegularAppealRounds c" and "appeal r = None"
    using getAdjudicationPhase_cases [of "appealBoundary t c" t c d r] that by simp
  have at_appeal_appealed: "getAdjudicationPhase d r (appealBoundary t c) t c =
      \<lparr>AdjudicationPhase.phase = ConfirmingAppeal, nextTransition = Some b\<rparr>"
    if "commitBoundary t c \<le> revealBoundary t c" and "revealBoundary t c \<le> appealBoundary t c"
      and "int (length (rounds d)) \<le> maxRegularAppealRounds c" and "appeal r \<noteq> None"
      and "appealConfirmBoundary t c = Some b" and "appealBoundary t c < b"
    using getAdjudicationPhase_cases [of "appealBoundary t c" t c d r b] that by simp
  have at_confirm: "getAdjudicationPhase d r b t c =
      \<lparr>AdjudicationPhase.phase = ExecuteRuling, nextTransition = None\<rparr>"
    if "commitBoundary t c \<le> revealBoundary t c" and "revealBoundary t c \<le> appealBoundary t c"
      and "appealConfirmBoundary t c = Some b" and "appealBoundary t c \<le> b"
    using that
    by (auto simp add: getAdjudicationPhase_def boundary_defs plusTimes_def lessNaN_def Let_def
        split: option.splits)
  have ev: "getPhaseAndTransition g d c nowDate =
        Inr (Some \<lparr>AdjudicationPhase.phase = Evidence,
                   nextTransition = Some (evidenceEnd d c),
                   PhaseAndTransition.roundId = number (last (rounds d)), ruling = None\<rparr>)"
    if "state d = Evidence" "rounds d \<noteq> []" "lastRoundId d = int (length (rounds d)) - 1"
      "nowDate = evidenceEnd d c"
    using that unix_le [of nowDate]
    by (simp add: getPhaseAndTransition_def index_last evidenceEnd_def Let_def)
  show ?thesis
    using neq neq4 at_commit at_reveal_cap at_reveal_open at_reveal_appealed at_appeal_open
      at_appeal_appealed at_confirm ev
    by blast
qed

text \<open>
  The amended C2 at the sample inputs, whose boundaries are 12000, 14000 and 16000, and 18000
  with \<^verbatim>\<open>appealConfirmTerms\<close>; evidence submission ends at 2000. The round without appeal
  passes the first three boundaries, the round with an appeal meets the comparison with the
  appeal-confirm boundary at 14000, 16000 and 18000, and the dispute of two rounds exceeds
  the cap.
\<close>

theorem boundary_is_past_witness:
  "getAdjudicationPhase sampleDispute sampleRound 12000 10000 sampleConfig =
     \<lparr>AdjudicationPhase.phase = RevealVote, nextTransition = Some 14000\<rparr>
   \<and> getAdjudicationPhase sampleDispute sampleRound 14000 10000 sampleConfig =
     \<lparr>AdjudicationPhase.phase = Appealing, nextTransition = Some 16000\<rparr>
   \<and> getAdjudicationPhase sampleDispute sampleRound 16000 10000 sampleConfig =
     \<lparr>AdjudicationPhase.phase = ExecuteRuling, nextTransition = None\<rparr>
   \<and> getAdjudicationPhase sampleDispute (sampleRound\<lparr>appeal := Some AppealObject\<rparr>)
       14000 10000 sampleConfigConfirm =
     \<lparr>AdjudicationPhase.phase = ConfirmingAppeal, nextTransition = Some 18000\<rparr>
   \<and> getAdjudicationPhase sampleDispute (sampleRound\<lparr>appeal := Some AppealObject\<rparr>)
       16000 10000 sampleConfigConfirm =
     \<lparr>AdjudicationPhase.phase = ConfirmingAppeal, nextTransition = Some 18000\<rparr>
   \<and> getAdjudicationPhase sampleDispute (sampleRound\<lparr>appeal := Some AppealObject\<rparr>)
       18000 10000 sampleConfigConfirm =
     \<lparr>AdjudicationPhase.phase = ExecuteRuling, nextTransition = None\<rparr>
   \<and> AdjudicationPhase.phase
       (getAdjudicationPhase sampleDispute (sampleRound\<lparr>appeal := Some AppealObject\<rparr>)
          18000 10000 sampleConfigConfirm) \<noteq> ConfirmingAppeal
   \<and> getAdjudicationPhase twoRoundDispute sampleRound 14000 10000 sampleConfig =
     \<lparr>AdjudicationPhase.phase = ExecuteRuling, nextTransition = None\<rparr>
   \<and> getPhaseAndTransition linearTermStartTime sampleDispute sampleConfig 2000 =
     Inr (Some \<lparr>AdjudicationPhase.phase = Evidence, nextTransition = Some 2000,
                PhaseAndTransition.roundId = 0, ruling = None\<rparr>)"
  using boundary_is_past
      [where d = sampleDispute and r = sampleRound and t = 10000 and c = sampleConfig
         and nowDate = 2000 and g = linearTermStartTime and b = 18000]
    boundary_is_past
      [where d = sampleDispute and r = "sampleRound\<lparr>appeal := Some AppealObject\<rparr>"
         and t = 10000 and c = sampleConfigConfirm and nowDate = 2000
         and g = linearTermStartTime and b = 18000]
    boundary_is_past
      [where d = twoRoundDispute and r = sampleRound and t = 10000 and c = sampleConfig
         and nowDate = 2000 and g = linearTermStartTime and b = 18000]
  by (simp add: boundary_defs evidenceEnd_def sample_defs sampleConfigConfirm_def
      twoRoundDispute_def)

subsection \<open>The resolver by dispute state\<close>

text \<open>
  Claim C4, as stated, fails for the date that the caller passes: the source floors it to
  whole seconds before the comparison. The sample dispute's evidence submission ends at
  2000; at the date 2999, which is later, the phase is still Evidence.
\<close>

theorem evidence_end_same_second:
  "evidenceEnd sampleDispute sampleConfig < 2999
   \<and> getPhaseAndTransition linearTermStartTime sampleDispute sampleConfig 2999 =
     Inr (Some \<lparr>AdjudicationPhase.phase = Evidence, nextTransition = Some 2000,
                PhaseAndTransition.roundId = 0, ruling = None\<rparr>)"
  by (simp add: getPhaseAndTransition_def evidenceEnd_def index_def unix_def sample_defs Let_def)

text \<open>
  Claim C4, amended. In state Evidence the caller's date is floored to whole seconds, and
  the phase is JuryDrafting with next transition \<open>evidenceEnd + termDuration * 3\<close> when the
  floored date is after \<open>evidenceEnd\<close>, and Evidence with next transition \<open>evidenceEnd\<close>
  otherwise. In the caller's date: every date of at least a second after \<open>evidenceEnd\<close>
  resolves to JuryDrafting, and every date up to \<open>evidenceEnd\<close> resolves to Evidence.
\<close>

theorem getPhaseAndTransition_Evidence:
  assumes "state d = Evidence" and "rounds d \<noteq> []"
    and "lastRoundId d = int (length (rounds d)) - 1"
  shows
  "(unix nowDate * 1000 > evidenceEnd d c \<longrightarrow>
      getPhaseAndTransition g d c nowDate =
        Inr (Some \<lparr>AdjudicationPhase.phase = JuryDrafting,
                   nextTransition = Some (evidenceEnd d c + termDuration c * 3),
                   PhaseAndTransition.roundId = number (last (rounds d)), ruling = None\<rparr>))
   \<and> (\<not> unix nowDate * 1000 > evidenceEnd d c \<longrightarrow>
      getPhaseAndTransition g d c nowDate =
        Inr (Some \<lparr>AdjudicationPhase.phase = Evidence,
                   nextTransition = Some (evidenceEnd d c),
                   PhaseAndTransition.roundId = number (last (rounds d)), ruling = None\<rparr>))
   \<and> (evidenceEnd d c + 1000 \<le> nowDate \<longrightarrow>
      getPhaseAndTransition g d c nowDate =
        Inr (Some \<lparr>AdjudicationPhase.phase = JuryDrafting,
                   nextTransition = Some (evidenceEnd d c + termDuration c * 3),
                   PhaseAndTransition.roundId = number (last (rounds d)), ruling = None\<rparr>))
   \<and> (nowDate \<le> evidenceEnd d c \<longrightarrow>
      getPhaseAndTransition g d c nowDate =
        Inr (Some \<lparr>AdjudicationPhase.phase = Evidence,
                   nextTransition = Some (evidenceEnd d c),
                   PhaseAndTransition.roundId = number (last (rounds d)), ruling = None\<rparr>))"
proof -
  have late: "evidenceEnd d c < unix nowDate * 1000" if "evidenceEnd d c + 1000 \<le> nowDate"
    using that unix_gt [of nowDate] by simp
  show ?thesis
    using assms unix_le [of nowDate] late
    by (auto simp add: getPhaseAndTransition_def index_last evidenceEnd_def Let_def
        juryDraftingTerms_def)
qed

text \<open>
  The amended C4 at the sample dispute, whose evidence submission ends at 2000: the dates
  3500 and 3000 are JuryDrafting, the dates 2999, 2000 and 1500 are Evidence.
\<close>

theorem getPhaseAndTransition_Evidence_witness:
  "getPhaseAndTransition linearTermStartTime sampleDispute sampleConfig 3500 =
     Inr (Some \<lparr>AdjudicationPhase.phase = JuryDrafting, nextTransition = Some 5000,
                PhaseAndTransition.roundId = 0, ruling = None\<rparr>)
   \<and> getPhaseAndTransition linearTermStartTime sampleDispute sampleConfig 3000 =
     Inr (Some \<lparr>AdjudicationPhase.phase = JuryDrafting, nextTransition = Some 5000,
                PhaseAndTransition.roundId = 0, ruling = None\<rparr>)
   \<and> getPhaseAndTransition linearTermStartTime sampleDispute sampleConfig 2999 =
     Inr (Some \<lparr>AdjudicationPhase.phase = Evidence, nextTransition = Some 2000,
                PhaseAndTransition.roundId = 0, ruling = None\<rparr>)
   \<and> getPhaseAndTransition linearTermStartTime sampleDispute sampleConfig 2000 =
     Inr (Some \<lparr>AdjudicationPhase.phase = Evidence, nextTransition = Some 2000,
                PhaseAndTransition.roundId = 0, ruling = None\<rparr>)
   \<and> getPhaseAndTransition linearTermStartTime sampleDispute sampleConfig 1500 =
     Inr (Some \<lparr>AdjudicationPhase.phase = Evidence, nextTransition = Some 2000,
                PhaseAndTransition.roundId = 0, ruling = None\<rparr>)"
  using getPhaseAndTransition_Evidence
      [where d = sampleDispute and nowDate = 3500 and c = sampleConfig
         and g = linearTermStartTime]
    getPhaseAndTransition_Evidence
      [where d = sampleDispute and nowDate = 3000 and c = sampleConfig
         and g = linearTermStartTime]
    getPhaseAndTransition_Evidence
      [where d = sampleDispute and nowDate = 2999 and c = sampleConfig
         and g = linearTermStartTime]
    getPhaseAndTransition_Evidence
      [where d = sampleDispute and nowDate = 2000 and c = sampleConfig
         and g = linearTermStartTime]
    getPhaseAndTransition_Evidence
      [where d = sampleDispute and nowDate = 1500 and c = sampleConfig
         and g = linearTermStartTime]
  by (simp add: sample_defs evidenceEnd_def unix_def)

text \<open>
  Claim C7. For a dispute with rounds, whose last round is the one \<^verbatim>\<open>lastRoundId\<close> names,
  a state other than Ruled, Evidence, JuryDrafting and Adjudicating makes
  \<^verbatim>\<open>getPhaseAndTransition\<close> fall through every branch: it returns \<^verbatim>\<open>undefined\<close> and does
  not fail.
\<close>

theorem getPhaseAndTransition_unknown_state:
  assumes "rounds d \<noteq> []" and "lastRoundId d = int (length (rounds d)) - 1"
    and "state d \<notin> {Ruled, Evidence, JuryDrafting, Adjudicating}"
  shows "getPhaseAndTransition g d c nowDate = Inr None"
  using assms by (simp add: getPhaseAndTransition_def index_last)

text \<open>
  C7 at the sample dispute in state Created.
\<close>

theorem getPhaseAndTransition_unknown_state_witness:
  "getPhaseAndTransition linearTermStartTime (sampleDispute\<lparr>state := Created\<rparr>)
     sampleConfig 5000 = Inr None"
  using getPhaseAndTransition_unknown_state
    [of "sampleDispute\<lparr>state := Created\<rparr>" linearTermStartTime sampleConfig 5000]
  by (simp add: sample_defs)

text \<open>
  Claim C10. Without rounds, \<^verbatim>\<open>getPhaseAndTransition\<close> fails with a TypeError whatever the
  state and \<^verbatim>\<open>lastRoundId\<close> are, since the last round is destructured before the state is
  looked at; \<^verbatim>\<open>getDisputeTimeLine\<close> calls it first and fails with it, so its return for
  an empty list of rounds is never reached.
\<close>

theorem empty_rounds_TypeError:
  assumes "rounds d = []"
  shows "getPhaseAndTransition g d c nowDate = Inl TypeError
         \<and> getDisputeTimeLine g d c clock = Inl TypeError"
  using assms by (simp add: getPhaseAndTransition_def getDisputeTimeLine_def index_Nil)

text \<open>
  C10 at the sample dispute without rounds, in states Evidence and Ruled.
\<close>

theorem empty_rounds_TypeError_witness:
  "getPhaseAndTransition linearTermStartTime
     (sampleDispute\<lparr>rounds := [], lastRoundId := - 1\<rparr>) sampleConfig 5000 = Inl TypeError
   \<and> getPhaseAndTransition linearTermStartTime
       (sampleDispute\<lparr>state := Ruled, rounds := [], lastRoundId := - 1\<rparr>) sampleConfig 5000
     = Inl TypeError
   \<and> getDisputeTimeLine linearTermStartTime
       (sampleDispute\<lparr>rounds := [], lastRoundId := - 1\<rparr>) sampleConfig 5000 = Inl TypeError"
  using empty_rounds_TypeError
      [where d = "sampleDispute\<lparr>rounds := [], lastRoundId := - 1\<rparr>"
         and g = linearTermStartTime and c = sampleConfig and nowDate = 5000 and clock = 5000]
    empty_rounds_TypeError
      [where d = "sampleDispute\<lparr>state := Ruled, rounds := [], lastRoundId := - 1\<rparr>"
         and g = linearTermStartTime and c = sampleConfig and nowDate = 5000 and clock = 5000]
  by (simp add: sample_defs)

text \<open>
  Claim C8. For a dispute with rounds in one of the four states that resolve to a phase, and
  a fixed configuration, the phase never moves back in the ordered phase sequence as the
  caller's date grows: both dates resolve, and the phase at the earlier date is at or before
  the phase at the later date.
\<close>

theorem getPhaseAndTransition_monotone:
  assumes "rounds d \<noteq> []" and "lastRoundId d = int (length (rounds d)) - 1"
    and "state d \<in> {Ruled, Evidence, JuryDrafting, Adjudicating}"
    and "now1 \<le> now2"
  shows "\<exists>p1 p2. getPhaseAndTransition g d c now1 = Inr (Some p1)
           \<and> getPhaseAndTransition g d c now2 = Inr (Some p2)
           \<and> phaseLeq (AdjudicationPhase.phase p1) (AdjudicationPhase.phase p2)"
proof -
  have idx: "index (rounds d) (lastRoundId d) = Some (last (rounds d))"
    using assms(1,2) by (simp add: index_last)
  have fl: "unix now1 * 1000 \<le> unix now2 * 1000"
    using assms(4) by (rule unix_mono)
  consider "state d = Ruled" | "state d = Evidence" | "state d = JuryDrafting"
    | "state d = Adjudicating"
    using assms(3) by auto
  then show ?thesis
  proof cases
    case 1
    then show ?thesis
      by (simp add: getPhaseAndTransition_def idx phaseLeq_def)
  next
    case 2
    then show ?thesis
      using fl by (simp add: getPhaseAndTransition_def idx phaseLeq_def Let_def)
  next
    case 3
    then show ?thesis
      by (simp add: getPhaseAndTransition_def idx phaseLeq_def)
  next
    case 4
    then show ?thesis
      using getAdjudicationPhase_mono [OF fl] assms(1,2)
      by (simp add: getPhaseAndTransition_Adjudicating AdjudicationPhase.extend_def)
  qed
qed

text \<open>
  C8 at the sample dispute in state Adjudicating, from the reveal stage to the ruling.
\<close>

theorem getPhaseAndTransition_monotone_witness:
  "\<exists>p1 p2.
     getPhaseAndTransition linearTermStartTime (sampleDispute\<lparr>state := Adjudicating\<rparr>)
       sampleConfig 12500 = Inr (Some p1)
     \<and> getPhaseAndTransition linearTermStartTime (sampleDispute\<lparr>state := Adjudicating\<rparr>)
         sampleConfig 16500 = Inr (Some p2)
     \<and> phaseLeq (AdjudicationPhase.phase p1) (AdjudicationPhase.phase p2)"
  using getPhaseAndTransition_monotone
      [where d = "sampleDispute\<lparr>state := Adjudicating\<rparr>" and g = linearTermStartTime
         and c = sampleConfig and ?now1.0 = 12500 and ?now2.0 = 16500]
  by (simp add: sample_defs)

subsection \<open>The timeline\<close>

text \<open>
  Claim C6. The ladder of a round has the five stages JuryDrafting, VotingPeriod, RevealVote,
  AppealRuling, ConfirmAppeal with their end times. A round whose number is below the
  resolved round id contributes the whole ladder; the round with the resolved round id
  contributes the ladder up to and including the entry of the resolved phase. The timeline
  of the dispute holds these contributions, one per round.
\<close>

theorem getRoundPhasesAndTime_truncation:
  "map PhaseEntry.phase (roundPhasesAndTime g c r cur) =
     [JuryDrafting, VotingPeriod, RevealVote, AppealRuling, ConfirmAppeal]
   \<and> map endTime (roundPhasesAndTime g c r cur) =
     [Some (Round.createdAt r + termDuration c * 3),
      Some (g (draftTermId r + delayedTerms r) c + termDuration c * commitTerms c),
      Some (g (draftTermId r + delayedTerms r) c
              + termDuration c * (commitTerms c + revealTerms c)),
      Some (g (draftTermId r + delayedTerms r) c
              + termDuration c * (commitTerms c + revealTerms c + appealTerms c)),
      Some (g (draftTermId r + delayedTerms r) c
              + termDuration c
                  * (commitTerms c + revealTerms c + appealTerms c
                       + appealConfirmationTerms c))]
   \<and> (number r < PhaseAndTransition.roundId cur \<longrightarrow>
        getRoundPhasesAndTime g c r cur = roundPhasesAndTime g c r cur)
   \<and> (number r = PhaseAndTransition.roundId cur \<and> i < 5
        \<and> PhaseEntry.phase (roundPhasesAndTime g c r cur ! i) = AdjudicationPhase.phase cur \<longrightarrow>
        getRoundPhasesAndTime g c r cur = take (Suc i) (roundPhasesAndTime g c r cur))
   \<and> (getPhaseAndTransition g d c clock = Inr (Some cur) \<longrightarrow>
        (\<exists>tl. getDisputeTimeLine g d c clock = Inr tl
           \<and> tl ! 2 =
               RoundsEntry (map (\<lambda>round. getRoundPhasesAndTime g c round cur) (rounds d))))"
proof -
  have cut: "getRoundPhasesAndTime g c r cur = take (Suc i) (roundPhasesAndTime g c r cur)"
    if "number r = PhaseAndTransition.roundId cur" and "i < 5"
      and "PhaseEntry.phase (roundPhasesAndTime g c r cur ! i) = AdjudicationPhase.phase cur"
  proof -
    from \<open>i < 5\<close> consider "i = 0" | "i = 1" | "i = 2" | "i = 3" | "i = 4"
      by linarith
    then show ?thesis
    proof cases
      case 1
      with that show ?thesis
        by (simp add: getRoundPhasesAndTime_def roundPhasesAndTime_def slice0_def Let_def)
    next
      case 2
      with that(1,3) [symmetric] show ?thesis
        by (simp add: getRoundPhasesAndTime_def roundPhasesAndTime_def slice0_def Let_def)
    next
      case 3
      with that(1,3) [symmetric] show ?thesis
        by (simp add: getRoundPhasesAndTime_def roundPhasesAndTime_def slice0_def Let_def)
    next
      case 4
      with that(1,3) [symmetric] show ?thesis
        by (simp add: getRoundPhasesAndTime_def roundPhasesAndTime_def slice0_def Let_def)
    next
      case 5
      with that(1,3) [symmetric] show ?thesis
        by (simp add: getRoundPhasesAndTime_def roundPhasesAndTime_def slice0_def Let_def)
    qed
  qed
  have times: "map endTime (roundPhasesAndTime g c r cur) =
     [Some (Round.createdAt r + termDuration c * 3),
      Some (g (draftTermId r + delayedTerms r) c + termDuration c * commitTerms c),
      Some (g (draftTermId r + delayedTerms r) c
              + termDuration c * (commitTerms c + revealTerms c)),
      Some (g (draftTermId r + delayedTerms r) c
              + termDuration c * (commitTerms c + revealTerms c + appealTerms c)),
      Some (g (draftTermId r + delayedTerms r) c
              + termDuration c
                  * (commitTerms c + revealTerms c + appealTerms c
                       + appealConfirmationTerms c))]"
    by (simp add: roundPhasesAndTime_def Let_def juryDraftingTerms_def)
  have full: "getRoundPhasesAndTime g c r cur = roundPhasesAndTime g c r cur"
    if "number r < PhaseAndTransition.roundId cur"
    using that by (simp add: getRoundPhasesAndTime_def)
  show ?thesis
    using roundPhasesAndTime_phases [of g c r cur] times full cut
      getDisputeTimeLine_rounds [of g d c clock cur]
    by blast
qed

text \<open>
  C6 at the dispute of two rounds, resolved to RevealVote of round 1: round 0 contributes
  its whole ladder, round 1 its first three entries.
\<close>

theorem getRoundPhasesAndTime_truncation_witness:
  "\<exists>tl. getDisputeTimeLine linearTermStartTime twoRoundDispute sampleConfig 12500 = Inr tl
     \<and> tl ! 2 =
         RoundsEntry
           [roundPhasesAndTime linearTermStartTime sampleConfig sampleRound
              \<lparr>AdjudicationPhase.phase = RevealVote, nextTransition = Some 14000,
               PhaseAndTransition.roundId = 1, ruling = None\<rparr>,
            take 3
              (roundPhasesAndTime linearTermStartTime sampleConfig (sampleRound\<lparr>number := 1\<rparr>)
                 \<lparr>AdjudicationPhase.phase = RevealVote, nextTransition = Some 14000,
                  PhaseAndTransition.roundId = 1, ruling = None\<rparr>)]"
proof -
  let ?cur = "\<lparr>AdjudicationPhase.phase = RevealVote, nextTransition = Some 14000,
               PhaseAndTransition.roundId = 1, ruling = None\<rparr>"
  have res: "getPhaseAndTransition linearTermStartTime twoRoundDispute sampleConfig 12500
               = Inr (Some ?cur)"
    by (simp add: getPhaseAndTransition_def getAdjudicationPhase_def index_def unix_def
        linearTermStartTime_def sample_defs twoRoundDispute_def Let_def
        AdjudicationPhase.extend_def)
  have at2: "PhaseEntry.phase
               (roundPhasesAndTime linearTermStartTime sampleConfig
                  (sampleRound\<lparr>number := 1\<rparr>) ?cur ! 2) = AdjudicationPhase.phase ?cur"
    by (simp add: roundPhasesAndTime_def Let_def)
  have rs: "rounds twoRoundDispute = [sampleRound, sampleRound\<lparr>number := 1\<rparr>]"
    by (simp add: twoRoundDispute_def)
  have full:
    "getRoundPhasesAndTime linearTermStartTime sampleConfig sampleRound ?cur
       = roundPhasesAndTime linearTermStartTime sampleConfig sampleRound ?cur"
    using getRoundPhasesAndTime_truncation
        [where g = linearTermStartTime and c = sampleConfig and r = sampleRound and i = 2
           and cur = ?cur and d = twoRoundDispute and clock = 12500]
    by (simp add: sampleRound_def)
  have cut:
    "getRoundPhasesAndTime linearTermStartTime sampleConfig (sampleRound\<lparr>number := 1\<rparr>) ?cur
       = take (Suc 2)
           (roundPhasesAndTime linearTermStartTime sampleConfig
              (sampleRound\<lparr>number := 1\<rparr>) ?cur)"
    using getRoundPhasesAndTime_truncation
        [where g = linearTermStartTime and c = sampleConfig
           and r = "sampleRound\<lparr>number := 1\<rparr>" and i = 2
           and cur = ?cur and d = twoRoundDispute and clock = 12500]
      at2
    by simp
  obtain tl where
    "getDisputeTimeLine linearTermStartTime twoRoundDispute sampleConfig 12500 = Inr tl"
    and "tl ! 2 =
           RoundsEntry
             (map (\<lambda>round. getRoundPhasesAndTime linearTermStartTime sampleConfig round ?cur)
                (rounds twoRoundDispute))"
    using getRoundPhasesAndTime_truncation
        [where g = linearTermStartTime and c = sampleConfig and r = sampleRound and i = 2
           and cur = ?cur and d = twoRoundDispute and clock = 12500]
      res
    by blast
  moreover have "Suc 2 = 3"
    by simp
  ultimately show ?thesis
    using full cut rs by simp
qed

text \<open>
  Claim C3 does not hold of the source. The two tests that guard the trailing entries
  compare a phase constant with a property read off the resolved phase
  (\<^verbatim>\<open>currentPhaseAndTime.phase.ExecuteRuling\<close>, \<^verbatim>\<open>currentPhaseAndTime.phase.ClaimRewards\<close>),
  which is \<^verbatim>\<open>undefined\<close>, so neither entry is ever appended: the sample dispute resolved to
  ExecuteRuling, and the same dispute in state Ruled resolved to ClaimRewards, both get the
  timeline that ends with the rounds' ladders.
\<close>

theorem getDisputeTimeLine_no_trailing_entry:
  "getPhaseAndTransition linearTermStartTime (sampleDispute\<lparr>state := Adjudicating\<rparr>)
     sampleConfig 16500 =
     Inr (Some \<lparr>AdjudicationPhase.phase = ExecuteRuling, nextTransition = None,
                PhaseAndTransition.roundId = 0, ruling = None\<rparr>)
   \<and> getDisputeTimeLine linearTermStartTime (sampleDispute\<lparr>state := Adjudicating\<rparr>)
       sampleConfig 16500 =
     Inr [Entry \<lparr>PhaseEntry.phase = Created, endTime = Some 0, active = None,
                 PhaseEntry.roundId = None\<rparr>,
          Entry \<lparr>PhaseEntry.phase = Evidence, endTime = Some 2000, active = Some False,
                 PhaseEntry.roundId = None\<rparr>,
          RoundsEntry [[]]]
   \<and> getPhaseAndTransition linearTermStartTime (sampleDispute\<lparr>state := Ruled\<rparr>)
       sampleConfig 16500 =
     Inr (Some \<lparr>AdjudicationPhase.phase = ClaimRewards, nextTransition = None,
                PhaseAndTransition.roundId = 0, ruling = Some Null\<rparr>)
   \<and> getDisputeTimeLine linearTermStartTime (sampleDispute\<lparr>state := Ruled\<rparr>)
       sampleConfig 16500 =
     Inr [Entry \<lparr>PhaseEntry.phase = Created, endTime = Some 0, active = None,
                 PhaseEntry.roundId = None\<rparr>,
          Entry \<lparr>PhaseEntry.phase = Evidence, endTime = Some 2000, active = Some False,
                 PhaseEntry.roundId = None\<rparr>,
          RoundsEntry [[]]]"
  by (simp add: getDisputeTimeLine_def getPhaseAndTransition_def getAdjudicationPhase_def
      getRoundPhasesAndTime_def roundPhasesAndTime_def phaseProperty_def index_def slice0_def
      unix_def linearTermStartTime_def juryDraftingTerms_def sample_defs Let_def
      AdjudicationPhase.extend_def)

text \<open>
  Claim C9, as stated, fails: \<^verbatim>\<open>getDisputeTimeLine\<close> reads the clock itself, and for the
  sample dispute a reading before the end of evidence submission and one after it give
  different timelines.
\<close>

theorem getDisputeTimeLine_reads_clock:
  "getDisputeTimeLine linearTermStartTime sampleDispute sampleConfig 1500
     \<noteq> getDisputeTimeLine linearTermStartTime sampleDispute sampleConfig 3500"
  by (simp add: getDisputeTimeLine_def getPhaseAndTransition_def
      getRoundPhasesAndTime_def roundPhasesAndTime_def phaseProperty_def index_def slice0_def
      unix_def linearTermStartTime_def juryDraftingTerms_def sample_defs Let_def)

text \<open>
  Claim C9, amended. The clock reading reaches the timeline only through the phase and round
  id that \<^verbatim>\<open>getPhaseAndTransition\<close> resolves from it: two runs on the same dispute and
  configuration give the same timeline whenever their readings resolve alike, and in
  particular whenever the readings lie in the same second.
\<close>

theorem getDisputeTimeLine_clock:
  "(resolved (getPhaseAndTransition g d c clock1)
      = resolved (getPhaseAndTransition g d c clock2) \<longrightarrow>
    getDisputeTimeLine g d c clock1 = getDisputeTimeLine g d c clock2)
   \<and> (unix clock1 = unix clock2 \<longrightarrow>
    getDisputeTimeLine g d c clock1 = getDisputeTimeLine g d c clock2)"
proof -
  have "getPhaseAndTransition g d c clock1 = getPhaseAndTransition g d c clock2"
    if "unix clock1 = unix clock2"
    using that by (simp add: getPhaseAndTransition_def)
  then show ?thesis
    using getDisputeTimeLine_resolved [of g d c clock1 clock2] by auto
qed

text \<open>
  The amended C9 at the sample dispute: two readings a day apart that both resolve to
  JuryDrafting, and two readings within one second.
\<close>

theorem getDisputeTimeLine_clock_witness:
  "getDisputeTimeLine linearTermStartTime sampleDispute sampleConfig 3500
     = getDisputeTimeLine linearTermStartTime sampleDispute sampleConfig 86400000
   \<and> getDisputeTimeLine linearTermStartTime sampleDispute sampleConfig 1000
     = getDisputeTimeLine linearTermStartTime sampleDispute sampleConfig 1999"
  using getDisputeTimeLine_clock
      [where g = linearTermStartTime and d = sampleDispute and c = sampleConfig
         and ?clock1.0 = 3500 and ?clock2.0 = 86400000]
    getDisputeTimeLine_clock
      [where g = linearTermStartTime and d = sampleDispute and c = sampleConfig
         and ?clock1.0 = 1000 and ?clock2.0 = 1999]
  by (simp add: resolved_def getPhaseAndTransition_def index_def unix_def sample_defs Let_def
      juryDraftingTerms_def)

end
